theory Spec2Isabelle
  imports Complex_Main
begin

section \<open>The rollercoaster scene of \<open>src/scenes/ThreePortfolio.tsx\<close>\<close>

text \<open>
  The component keeps its motion state in React refs: \<open>sceneRef.current\<close> (the ball, the
  curve, the progress along the curve and the id of the pending animation frame),
  \<open>speedRef\<close>, \<open>isPlayingRef\<close> and \<open>directionRef\<close>, and mirrors the three controls in the
  React state \<open>controlState\<close>. The per-frame callback \<open>animate\<close> reads and writes them.

  Numbers are JavaScript numbers in the source. They are modelled by exact rationals:
  comparisons, \<open>Math.max\<close> and \<open>Math.min\<close> are then exactly the source's, while sums and
  products are the exact ones, without the rounding of IEEE doubles, and there is no NaN
  and no infinity.

  The three.js library is not part of the repository. The two library calls the motion
  depends on are parameters of the model: \<open>getPoint\<close> is \<open>curve.getPoint\<close> of the fixed
  track curve, and \<open>lookAt position target\<close> is the quaternion that \<open>ball.lookAt(target)\<close>
  stores for a ball at \<open>position\<close>. The calls made for their effect only
  (\<open>controls.update()\<close>, \<open>renderer.render(scene, camera)\<close>) are recorded in a trace.
\<close>

type_synonym Vector3 = "rat \<times> rat \<times> rat"
type_synonym Quaternion = "rat \<times> rat \<times> rat \<times> rat"

datatype effect =
    GetPoint rat
  | ControlsUpdate
  | Render
  | RequestFrame nat
  | CancelFrame nat

text \<open>The fields of \<open>sceneRef.current\<close> that the animation touches.\<close>

record scene_ref =
  ball_position :: Vector3
  ball_quaternion :: Quaternion
  progress :: rat
  animationFrameId :: "nat option"

text \<open>
  The refs and state of the component, together with the part of the browser that
  \<open>requestAnimationFrame\<close> and \<open>cancelAnimationFrame\<close> work on: the animation frame
  callback identifier of the document (\<open>raf_handle\<close>, the last handle given out) and the
  handles of the callbacks that wait for the next frame (\<open>raf_pending\<close>). The only
  callback the component ever registers is \<open>animate\<close>, so a handle stands for it.
\<close>

record world =
  sceneRef :: "scene_ref option"
  speedRef :: rat
  isPlayingRef :: bool
  directionRef :: rat
  controlState_speed :: rat
  controlState_isPlaying :: bool
  controlState_direction :: rat
  raf_handle :: nat
  raf_pending :: "nat list"
  trace :: "effect list"

subsection \<open>Browser primitives\<close>

text \<open>
  The browser is not part of the repository either; the two calls follow the HTML
  standard. \<open>requestAnimationFrame\<close> increments the identifier, queues the callback under
  the new handle and returns the handle, so a handle is never 0;
  \<open>cancelAnimationFrame\<close> removes the handle from the queue.
\<close>

definition requestAnimationFrame :: "world \<Rightarrow> nat \<times> world" where
  "requestAnimationFrame w =
     (let h = raf_handle w + 1
      in (h, w\<lparr>raf_handle := h, raf_pending := raf_pending w @ [h],
                 trace := trace w @ [RequestFrame h]\<rparr>))"

definition cancelAnimationFrame :: "nat \<Rightarrow> world \<Rightarrow> world" where
  "cancelAnimationFrame h w =
     w\<lparr>raf_pending := removeAll h (raf_pending w), trace := trace w @ [CancelFrame h]\<rparr>"

text \<open>
  The remainder \<open>a % 1\<close> of JavaScript: the result has the sign of the dividend, that is,
  the quotient is truncated toward zero.
\<close>

definition trunc :: "rat \<Rightarrow> int" where
  "trunc a = (if 0 \<le> a then \<lfloor>a\<rfloor> else \<lceil>a\<rceil>)"

definition rem1 :: "rat \<Rightarrow> rat" where
  "rem1 a = a - of_int (trunc a)"

subsection \<open>The animation callback (second rendition, lines 341 to 367)\<close>

text \<open>
  The block guarded by \<open>isPlayingRef.current\<close>: it returns the updated scene and the
  curve evaluations it made. The two \<open>if\<close> statements of the wrap run one after the other,
  as in the source.
\<close>

definition advance ::
  "(rat \<Rightarrow> Vector3) \<Rightarrow> (Vector3 \<Rightarrow> Vector3 \<Rightarrow> Quaternion) \<Rightarrow> rat \<Rightarrow> rat \<Rightarrow> scene_ref
     \<Rightarrow> scene_ref \<times> effect list" where
  "advance getPoint lookAt speed direction sc =
     (let newProgress = progress sc + speed * direction;
          newProgress = (if newProgress > 1 then 0 else newProgress);
          newProgress = (if newProgress < 0 then 1 else newProgress);
          point = getPoint newProgress;
          t = rem1 (newProgress + (1 / 100) * direction + 1);
          nextPoint = getPoint t
      in (sc\<lparr>progress := newProgress, ball_position := point,
               ball_quaternion := lookAt point nextPoint\<rparr>,
          [GetPoint newProgress, GetPoint t]))"

definition animate ::
  "(rat \<Rightarrow> Vector3) \<Rightarrow> (Vector3 \<Rightarrow> Vector3 \<Rightarrow> Quaternion) \<Rightarrow> world \<Rightarrow> world" where
  "animate getPoint lookAt w =
     (case sceneRef w of
        None \<Rightarrow> w
      | Some sc \<Rightarrow>
          let (sc1, evals) =
                (if isPlayingRef w
                 then advance getPoint lookAt (speedRef w) (directionRef w) sc
                 else (sc, []));
              (h, w1) = requestAnimationFrame
                          (w\<lparr>trace := trace w @ evals @ [ControlsUpdate, Render]\<rparr>)
          in w1\<lparr>sceneRef := Some (sc1\<lparr>animationFrameId := Some h\<rparr>)\<rparr>)"

subsection \<open>The animation callback (first rendition, lines 122 to 139)\<close>

text \<open>
  The first rendition has no controls: it always advances by 0.001, wraps with \<open>% 1\<close>,
  looks 0.01 ahead, and does not keep the id that \<open>requestAnimationFrame\<close> returns.
\<close>

definition animate_v1 ::
  "(rat \<Rightarrow> Vector3) \<Rightarrow> (Vector3 \<Rightarrow> Vector3 \<Rightarrow> Quaternion) \<Rightarrow> world \<Rightarrow> world" where
  "animate_v1 getPoint lookAt w =
     (case sceneRef w of
        None \<Rightarrow> w
      | Some sc \<Rightarrow>
          let newProgress = rem1 (progress sc + 1 / 1000);
              point = getPoint newProgress;
              t = rem1 (newProgress + 1 / 100);
              nextPoint = getPoint t;
              (h, w1) = requestAnimationFrame
                          (w\<lparr>trace := trace w @ [GetPoint newProgress, GetPoint t,
                                                   ControlsUpdate, Render]\<rparr>)
          in w1\<lparr>sceneRef := Some (sc\<lparr>progress := newProgress, ball_position := point,
                                        ball_quaternion := lookAt point nextPoint\<rparr>)\<rparr>)"

subsection \<open>The handlers of the controls (lines 393 to 406)\<close>

text \<open>
  Each handler writes the ref and the React state. The state update is modelled as
  immediate: the component has rendered again before the next click reads
  \<open>controlState\<close>.
\<close>

definition handleSpeedChange :: "rat \<Rightarrow> world \<Rightarrow> world" where
  "handleSpeedChange newSpeed w = w\<lparr>speedRef := newSpeed, controlState_speed := newSpeed\<rparr>"

definition handlePlayingChange :: "world \<Rightarrow> world" where
  "handlePlayingChange w =
     (let playing = \<not> isPlayingRef w
      in w\<lparr>isPlayingRef := playing, controlState_isPlaying := playing\<rparr>)"

definition handleDirectionChange :: "rat \<Rightarrow> world \<Rightarrow> world" where
  "handleDirectionChange newDirection w =
     w\<lparr>directionRef := newDirection, controlState_direction := newDirection\<rparr>"

subsection \<open>Mounting and cleanup of the effect\<close>

text \<open>
  The effect builds the scene before it starts the animation. Of the construction only
  the calls of \<open>curve.getPoint\<close> are kept, for the trace: the two rails (\<open>createRail\<close>,
  called for the left and the right rail, 101 points each) and the 50 supports. The
  meshes, lights and listeners, and the calls of \<open>curve.getTangent\<close>, do not touch the
  motion state and are left out, as is the early return of an effect that finds no mount
  element.
\<close>

definition setup_evaluations :: "effect list" where
  "setup_evaluations =
     map (\<lambda>i. GetPoint (of_nat i / 100)) [0..<101] @
     map (\<lambda>i. GetPoint (of_nat i / 100)) [0..<101] @
     map (\<lambda>i. GetPoint (of_nat i / 50)) [0..<50]"

text \<open>
  The state when the effect has stored \<open>sceneRef.current\<close> (line 330): the ball sits at
  \<open>curve.getPoint(0)\<close> with the orientation of a new mesh, the identity quaternion, and the
  refs hold their initial values. No animation frame has been requested yet.
\<close>

definition initial_world :: "(rat \<Rightarrow> Vector3) \<Rightarrow> world" where
  "initial_world getPoint =
     \<lparr>sceneRef = Some \<lparr>ball_position = getPoint 0, ball_quaternion = (0, 0, 0, 1),
                        progress = 0, animationFrameId = None\<rparr>,
      speedRef = 1 / 1000, isPlayingRef = True, directionRef = 1,
      controlState_speed = 1 / 1000, controlState_isPlaying = True,
      controlState_direction = 1,
      raf_handle = 0, raf_pending = [],
      trace = setup_evaluations @ [GetPoint 0]\<rparr>"

text \<open>The effect then calls \<open>animate()\<close> itself, once (line 369).\<close>

definition mount ::
  "(rat \<Rightarrow> Vector3) \<Rightarrow> (Vector3 \<Rightarrow> Vector3 \<Rightarrow> Quaternion) \<Rightarrow> world" where
  "mount getPoint lookAt = animate getPoint lookAt (initial_world getPoint)"

text \<open>
  The cleanup of the effect (lines 384 to 390), without the removal of the resize listener
  and of the canvas. The guard is the truthiness of \<open>sceneRef.current?.animationFrameId\<close>:
  an undefined id and the id 0 cancel nothing.
\<close>

definition cleanup :: "world \<Rightarrow> world" where
  "cleanup w =
     (case sceneRef w of
        None \<Rightarrow> w
      | Some sc \<Rightarrow>
          (case animationFrameId sc of
             None \<Rightarrow> w
           | Some h \<Rightarrow> if h \<noteq> 0 then cancelAnimationFrame h w else w))"

subsection \<open>The events of a mounted component\<close>

text \<open>
  An animation frame of the browser runs the callbacks that were pending when the frame
  began, each removed from the queue before it is invoked; a callback requested during
  the frame waits for the next one.
\<close>

datatype event =
    Frame
  | ClickStartStop
  | ClickBackward
  | ClickForward
  | SliderChange rat
  | ClickSlower
  | ClickFaster
  | Unmount

definition run_callback ::
  "(rat \<Rightarrow> Vector3) \<Rightarrow> (Vector3 \<Rightarrow> Vector3 \<Rightarrow> Quaternion) \<Rightarrow> nat \<Rightarrow> world \<Rightarrow> world" where
  "run_callback getPoint lookAt h w =
     (if h \<in> set (raf_pending w)
      then animate getPoint lookAt (w\<lparr>raf_pending := removeAll h (raf_pending w)\<rparr>)
      else w)"

definition run_frame ::
  "(rat \<Rightarrow> Vector3) \<Rightarrow> (Vector3 \<Rightarrow> Vector3 \<Rightarrow> Quaternion) \<Rightarrow> world \<Rightarrow> world" where
  "run_frame getPoint lookAt w = fold (run_callback getPoint lookAt) (raf_pending w) w"

fun step ::
  "(rat \<Rightarrow> Vector3) \<Rightarrow> (Vector3 \<Rightarrow> Vector3 \<Rightarrow> Quaternion) \<Rightarrow> event \<Rightarrow> world \<Rightarrow> world" where
  "step getPoint lookAt Frame w = run_frame getPoint lookAt w"
| "step getPoint lookAt ClickStartStop w = handlePlayingChange w"
| "step getPoint lookAt ClickBackward w = handleDirectionChange (- 1) w"
| "step getPoint lookAt ClickForward w = handleDirectionChange 1 w"
| "step getPoint lookAt (SliderChange v) w = handleSpeedChange v w"
| "step getPoint lookAt ClickSlower w =
     handleSpeedChange (max (1 / 10000) (controlState_speed w - 1 / 10000)) w"
| "step getPoint lookAt ClickFaster w =
     handleSpeedChange (min (5 / 1000) (controlState_speed w + 1 / 10000)) w"
| "step getPoint lookAt Unmount w = cleanup w"

fun run ::
  "(rat \<Rightarrow> Vector3) \<Rightarrow> (Vector3 \<Rightarrow> Vector3 \<Rightarrow> Quaternion) \<Rightarrow> world \<Rightarrow> event list \<Rightarrow> world" where
  "run getPoint lookAt w [] = w"
| "run getPoint lookAt w (e # es) = run getPoint lookAt (step getPoint lookAt e w) es"

text \<open>
  The range input offers the values from 0.0001 to 0.005 (\<open>min\<close> and \<open>max\<close> of the
  \<open>input\<close> element); the other events carry no data.
\<close>

fun valid_event :: "event \<Rightarrow> bool" where
  "valid_event (SliderChange v) = (1 / 10000 \<le> v \<and> v \<le> 5 / 1000)"
| "valid_event _ = True"

subsection \<open>State predicates\<close>

definition progress_ok :: "world \<Rightarrow> bool" where
  "progress_ok w =
     (case sceneRef w of None \<Rightarrow> False | Some sc \<Rightarrow> 0 \<le> progress sc \<and> progress sc \<le> 1)"

definition direction_ok :: "world \<Rightarrow> bool" where
  "direction_ok w = (directionRef w = 1 \<or> directionRef w = - 1)"

fun unit_parameter :: "effect \<Rightarrow> bool" where
  "unit_parameter (GetPoint t) = (0 \<le> t \<and> t \<le> 1)"
| "unit_parameter _ = True"

definition evaluations_ok :: "world \<Rightarrow> bool" where
  "evaluations_ok w = list_all unit_parameter (trace w)"

text \<open>The ball sits at the point of the curve at the current progress.\<close>

definition on_curve :: "(rat \<Rightarrow> Vector3) \<Rightarrow> world \<Rightarrow> bool" where
  "on_curve getPoint w =
     (case sceneRef w of
        None \<Rightarrow> False
      | Some sc \<Rightarrow> ball_position sc = getPoint (progress sc))"

definition motion_ok :: "world \<Rightarrow> bool" where
  "motion_ok w = (progress_ok w \<and> direction_ok w \<and> evaluations_ok w)"

definition speed_ok :: "world \<Rightarrow> bool" where
  "speed_ok w =
     (1 / 10000 \<le> speedRef w \<and> speedRef w \<le> 5 / 1000 \<and> controlState_speed w = speedRef w)"

text \<open>
  Either no callback is pending, or exactly one is, under the handle given out last,
  which is the one stored in \<open>animationFrameId\<close>.
\<close>

definition raf_ok :: "world \<Rightarrow> bool" where
  "raf_ok w =
     (case sceneRef w of
        None \<Rightarrow> False
      | Some sc \<Rightarrow>
          raf_pending w = [] \<or>
          (raf_pending w = [raf_handle w] \<and> animationFrameId sc = Some (raf_handle w) \<and>
           0 < raf_handle w))"

subsection \<open>A concrete curve for closed examples\<close>

text \<open>
  Closed examples need some curve and some orientation function; every general theorem
  is about an arbitrary \<open>getPoint\<close> and \<open>lookAt\<close>. The stand-in curve is the closed polygon
  through four of the control points of the track, \<open>(-10, 2, 0)\<close>, \<open>(0, 2, 10)\<close>,
  \<open>(10, 2, 0)\<close> and \<open>(0, 2, -10)\<close>. The stand-in orientation is the vector from the position
  to the target, with a zero in the fourth component.
\<close>

definition loop_curve :: "rat \<Rightarrow> Vector3" where
  "loop_curve t =
     (if t < 1 / 4 then (40 * t - 10, 2, 40 * t)
      else if t < 1 / 2 then (40 * t - 10, 2, 20 - 40 * t)
      else if t < 3 / 4 then (30 - 40 * t, 2, 20 - 40 * t)
      else (30 - 40 * t, 2, 40 * t - 40))"

definition look_target :: "Vector3 \<Rightarrow> Vector3 \<Rightarrow> Quaternion" where
  "look_target p q = (fst q - fst p, fst (snd q) - fst (snd p), snd (snd q) - snd (snd p), 0)"

text \<open>
  The state of \<open>initial_world\<close> for the stand-in curve, with an empty trace, and the same
  state with the ball at the end of the parameter interval.
\<close>

definition world0 :: world where
  "world0 =
     \<lparr>sceneRef = Some \<lparr>ball_position = (- 10, 2, 0), ball_quaternion = (0, 0, 0, 1),
                        progress = 0, animationFrameId = None\<rparr>,
      speedRef = 1 / 1000, isPlayingRef = True, directionRef = 1,
      controlState_speed = 1 / 1000, controlState_isPlaying = True,
      controlState_direction = 1,
      raf_handle = 0, raf_pending = [], trace = []\<rparr>"

definition world1 :: world where
  "world1 =
     world0\<lparr>sceneRef := Some \<lparr>ball_position = (- 10, 2, 0), ball_quaternion = (0, 0, 0, 1),
                                progress = 1, animationFrameId = None\<rparr>\<rparr>"

text \<open>
  Two histories of a mounted component that end paused at the same progress, with the
  same speed and the Forward direction selected: one stops right after mounting, the
  other runs a frame, turns backward, runs another frame, stops and selects Forward.
\<close>

definition paused_forward :: world where
  "paused_forward =
     run loop_curve look_target (mount loop_curve look_target) [ClickStartStop]"

definition paused_turned :: world where
  "paused_turned =
     run loop_curve look_target (mount loop_curve look_target)
       [Frame, ClickBackward, Frame, ClickStartStop, ClickForward]"

section \<open>Properties\<close>

subsection \<open>One frame\<close>

lemma animate_unfold:
  assumes "sceneRef w = Some sc"
  shows "animate getPoint lookAt w =
     (let r = (if isPlayingRef w
               then advance getPoint lookAt (speedRef w) (directionRef w) sc
               else (sc, []));
          h = raf_handle w + 1
      in w\<lparr>sceneRef := Some ((fst r)\<lparr>animationFrameId := Some h\<rparr>),
            raf_handle := h,
            raf_pending := raf_pending w @ [h],
            trace := trace w @ snd r @ [ControlsUpdate, Render, RequestFrame h]\<rparr>)"
  using assms
  by (simp add: animate_def requestAnimationFrame_def Let_def split: prod.split)

lemma animate_v1_unfold:
  assumes "sceneRef w = Some sc"
  shows "animate_v1 getPoint lookAt w =
     (let np = rem1 (progress sc + 1 / 1000);
          t = rem1 (np + 1 / 100);
          h = raf_handle w + 1
      in w\<lparr>sceneRef := Some (sc\<lparr>progress := np, ball_position := getPoint np,
                                  ball_quaternion := lookAt (getPoint np) (getPoint t)\<rparr>),
            raf_handle := h,
            raf_pending := raf_pending w @ [h],
            trace := trace w @
              [GetPoint np, GetPoint t, ControlsUpdate, Render, RequestFrame h]\<rparr>)"
  using assms
  by (simp add: animate_v1_def requestAnimationFrame_def Let_def split: prod.split)

lemma advance_progress:
  "progress (fst (advance getPoint lookAt s d sc)) =
     (let x = progress sc + s * d in if x > 1 then 0 else if x < 0 then 1 else x)"
  by (simp add: advance_def Let_def)

lemma advance_progress_bounds:
  "0 \<le> progress (fst (advance getPoint lookAt s d sc)) \<and>
   progress (fst (advance getPoint lookAt s d sc)) \<le> 1"
  by (simp add: advance_def Let_def)

lemma advance_position:
  "ball_position (fst (advance getPoint lookAt s d sc)) =
     getPoint (progress (fst (advance getPoint lookAt s d sc)))"
  by (simp add: advance_def Let_def)

lemma advance_quaternion:
  "ball_quaternion (fst (advance getPoint lookAt s d sc)) =
     lookAt (getPoint (progress (fst (advance getPoint lookAt s d sc))))
       (getPoint (rem1 (progress (fst (advance getPoint lookAt s d sc)) + (1 / 100) * d + 1)))"
  by (simp add: advance_def Let_def)

lemma advance_evals:
  "snd (advance getPoint lookAt s d sc) =
     [GetPoint (progress (fst (advance getPoint lookAt s d sc))),
      GetPoint (rem1 (progress (fst (advance getPoint lookAt s d sc)) + (1 / 100) * d + 1))]"
  by (simp add: advance_def Let_def)

text \<open>On a dividend that is not negative, \<open>% 1\<close> is the fractional part.\<close>

lemma rem1_nonneg: "0 \<le> a \<Longrightarrow> rem1 a = frac a"
  by (simp add: rem1_def trunc_def frac_def)

lemma rem1_forward:
  assumes "0 \<le> p" "p \<le> 1"
  shows "rem1 (p + 1 / 100 + 1) = (if p + 1 / 100 < 1 then p + 1 / 100 else p + 1 / 100 - 1)"
proof (cases "p + 1 / 100 < 1")
  case True
  then have "\<lfloor>p + 1 / 100 + 1\<rfloor> = 1" using assms by (simp add: floor_eq_iff)
  then show ?thesis using assms True by (simp add: rem1_def trunc_def)
next
  case False
  then have "\<lfloor>p + 1 / 100 + 1\<rfloor> = 2" using assms by (simp add: floor_eq_iff)
  then show ?thesis using assms False by (simp add: rem1_def trunc_def)
qed

lemma rem1_backward:
  assumes "0 \<le> p" "p \<le> 1"
  shows "rem1 (p - 1 / 100 + 1) = (if p < 1 / 100 then p - 1 / 100 + 1 else p - 1 / 100)"
proof (cases "p < 1 / 100")
  case True
  then have "\<lfloor>p - 1 / 100 + 1\<rfloor> = 0" using assms by (simp add: floor_eq_iff)
  then show ?thesis using assms True by (simp add: rem1_def trunc_def)
next
  case False
  then have "\<lfloor>p - 1 / 100 + 1\<rfloor> = 1" using assms by (simp add: floor_eq_iff)
  then show ?thesis using assms False by (simp add: rem1_def trunc_def)
qed

lemma rem1_unit:
  assumes "0 \<le> p" "p \<le> 1" "d = 1 \<or> d = - 1"
  shows "0 \<le> rem1 (p + (1 / 100) * d + 1) \<and> rem1 (p + (1 / 100) * d + 1) \<le> 1"
  using assms rem1_forward [OF assms(1,2)] rem1_backward [OF assms(1,2)]
  by (auto split: if_splits)

text \<open>
  C1. In a frame in which playback is active, the new progress is the old progress plus
  \<open>speed * direction\<close>, brought back into \<open>[0, 1]\<close>: a sum above 1 wraps to 0, a sum below 0
  wraps to 1, and a sum inside the interval is kept.
\<close>

theorem C1_progress_advance:
  assumes "sceneRef w = Some sc" and "isPlayingRef w"
  shows "\<exists>sc'. sceneRef (animate getPoint lookAt w) = Some sc' \<and>
           0 \<le> progress sc' \<and> progress sc' \<le> 1 \<and>
           progress sc' =
             (let x = progress sc + speedRef w * directionRef w
              in if x > 1 then 0 else if x < 0 then 1 else x)"
  using assms advance_progress_bounds [of getPoint lookAt "speedRef w" "directionRef w" sc]
  by (simp add: animate_unfold advance_progress Let_def)

theorem C1_progress_advance_witness:
  "sceneRef world0 \<noteq> None \<and> isPlayingRef world0 \<and>
   (\<exists>sc'. sceneRef (animate loop_curve look_target world0) = Some sc' \<and>
      progress sc' = 1 / 1000)"
  using C1_progress_advance [of world0 "the (sceneRef world0)" loop_curve look_target]
  by (auto simp: world0_def)

text \<open>
  C3. After a frame in which playback is active, the ball sits at the point of the curve
  at the updated progress. The first rendition, which always plays, does the same.
\<close>

theorem C3_ball_on_curve:
  assumes "sceneRef w = Some sc" and "isPlayingRef w"
  shows "(\<exists>sc'. sceneRef (animate getPoint lookAt w) = Some sc' \<and>
            ball_position sc' = getPoint (progress sc')) \<and>
         (\<exists>sc'. sceneRef (animate_v1 getPoint lookAt w) = Some sc' \<and>
            ball_position sc' = getPoint (progress sc'))"
  using assms
  by (simp add: animate_unfold animate_v1_unfold Let_def advance_position)

theorem C3_ball_on_curve_witness:
  "sceneRef world0 \<noteq> None \<and> isPlayingRef world0 \<and>
   (\<exists>sc'. sceneRef (animate loop_curve look_target world0) = Some sc' \<and>
      progress sc' = 1 / 1000 \<and> ball_position sc' = (- 249 / 25, 2, 1 / 25))"
  using C3_ball_on_curve [of world0 "the (sceneRef world0)" loop_curve look_target]
  by (auto simp: world0_def loop_curve_def animate_unfold advance_def Let_def)

text \<open>
  C4. In a frame in which playback is active, the ball looks from its new position at the
  point of the curve at parameter \<open>(newProgress + 0.01 * direction + 1) % 1\<close>. The dividend
  is not negative, so this is the fractional part: for direction 1 it is the progress plus
  0.01, less 1 when that reaches 1; for direction -1 it is the progress minus 0.01, plus
  1 when that is negative.
\<close>

theorem C4_look_ahead:
  assumes "sceneRef w = Some sc" and "isPlayingRef w"
  shows "\<exists>sc'. sceneRef (animate getPoint lookAt w) = Some sc' \<and>
           (let p = progress sc';
                t = rem1 (p + (1 / 100) * directionRef w + 1)
            in ball_quaternion sc' = lookAt (getPoint p) (getPoint t) \<and>
               (directionRef w = 1 \<longrightarrow>
                  t = frac (p + 1 / 100 + 1) \<and>
                  t = (if p + 1 / 100 < 1 then p + 1 / 100 else p + 1 / 100 - 1)) \<and>
               (directionRef w = - 1 \<longrightarrow>
                  t = frac (p - 1 / 100 + 1) \<and>
                  t = (if p < 1 / 100 then p - 1 / 100 + 1 else p - 1 / 100)))"
proof -
  define sc1 where "sc1 = fst (advance getPoint lookAt (speedRef w) (directionRef w) sc)"
  define p where "p = progress sc1"
  have bounds: "0 \<le> p" "p \<le> 1"
    using advance_progress_bounds [of getPoint lookAt "speedRef w" "directionRef w" sc]
    by (simp_all add: p_def sc1_def)
  have scene: "sceneRef (animate getPoint lookAt w) =
                 Some (sc1\<lparr>animationFrameId := Some (raf_handle w + 1)\<rparr>)"
    using assms by (simp add: animate_unfold Let_def sc1_def)
  have quat: "ball_quaternion sc1 =
                lookAt (getPoint p) (getPoint (rem1 (p + (1 / 100) * directionRef w + 1)))"
    unfolding p_def sc1_def by (rule advance_quaternion)
  have fwd: "rem1 (p + 1 / 100 + 1) = frac (p + 1 / 100 + 1)"
    using bounds by (simp add: rem1_nonneg)
  have bwd: "rem1 (p - 1 / 100 + 1) = frac (p - 1 / 100 + 1)"
    using bounds by (simp add: rem1_nonneg)
  show ?thesis
    using scene quat fwd bwd rem1_forward [OF bounds] rem1_backward [OF bounds]
    by (simp add: Let_def p_def)
qed

theorem C4_look_ahead_witness:
  "sceneRef world0 \<noteq> None \<and> isPlayingRef world0 \<and> directionRef world0 = 1 \<and>
   (\<exists>sc'. sceneRef (animate loop_curve look_target world0) = Some sc' \<and>
      progress sc' = 1 / 1000 \<and>
      ball_quaternion sc' =
        look_target (loop_curve (1 / 1000)) (loop_curve (11 / 1000)))"
proof -
  have r: "rem1 (1011 / 1000) = 11 / 1000"
    by (simp add: rem1_def trunc_def floor_eq_iff)
  show ?thesis
    using C4_look_ahead [of world0 "the (sceneRef world0)" loop_curve look_target]
    by (auto simp: world0_def animate_unfold advance_def Let_def r)
qed

text \<open>
  C6. A frame while playback is paused leaves the scene as it was, but for the id of the
  newly requested frame: progress, ball position and ball orientation are unchanged. In
  every frame, playing or paused, the controls are updated once and the scene is rendered
  once, after the curve evaluations of the frame (none when paused), and the next frame is
  requested.
\<close>

theorem C6_paused_frame:
  assumes "sceneRef w = Some sc"
  shows "(\<not> isPlayingRef w \<longrightarrow>
            sceneRef (animate getPoint lookAt w) =
              Some (sc\<lparr>animationFrameId := Some (raf_handle w + 1)\<rparr>)) \<and>
         (\<exists>evals. trace (animate getPoint lookAt w) =
                     trace w @ evals @ [ControlsUpdate, Render, RequestFrame (raf_handle w + 1)] \<and>
                   ControlsUpdate \<notin> set evals \<and> Render \<notin> set evals \<and>
                   (\<not> isPlayingRef w \<longrightarrow> evals = []))"
  using assms by (simp add: animate_unfold Let_def advance_evals)

theorem C6_paused_frame_witness:
  "sceneRef (handlePlayingChange world0) \<noteq> None \<and>
   \<not> isPlayingRef (handlePlayingChange world0) \<and>
   map_option progress (sceneRef (animate loop_curve look_target (handlePlayingChange world0))) =
     Some 0 \<and>
   map_option ball_position
     (sceneRef (animate loop_curve look_target (handlePlayingChange world0))) =
     Some (- 10, 2, 0) \<and>
   map_option ball_quaternion
     (sceneRef (animate loop_curve look_target (handlePlayingChange world0))) =
     Some (0, 0, 0, 1) \<and>
   trace (animate loop_curve look_target (handlePlayingChange world0)) =
     [ControlsUpdate, Render, RequestFrame 1]"
  using C6_paused_frame [of "handlePlayingChange world0" "the (sceneRef world0)"
      loop_curve look_target]
  by (auto simp: world0_def handlePlayingChange_def Let_def)

subsection \<open>Invariants of the event loop\<close>

lemma fold_preserves:
  assumes "\<And>h w. P w \<Longrightarrow> P (f h w)" and "P w"
  shows "P (fold f hs w)"
  using assms(2) by (induction hs arbitrary: w) (simp_all add: assms(1))

lemma run_preserves:
  assumes "\<And>e w. e \<in> set es \<Longrightarrow> P w \<Longrightarrow> P (step getPoint lookAt e w)" and "P w"
  shows "P (run getPoint lookAt w es)"
  using assms by (induction es arbitrary: w) simp_all

lemma animate_motion_ok:
  assumes "motion_ok w"
  shows "motion_ok (animate getPoint lookAt w)"
proof -
  from assms obtain sc where sc: "sceneRef w = Some sc"
    by (auto simp: motion_ok_def progress_ok_def split: option.splits)
  let ?sc1 = "fst (advance getPoint lookAt (speedRef w) (directionRef w) sc)"
  have b: "0 \<le> progress ?sc1" "progress ?sc1 \<le> 1"
    using advance_progress_bounds [of getPoint lookAt "speedRef w" "directionRef w" sc]
    by simp_all
  have d: "directionRef w = 1 \<or> directionRef w = - 1"
    using assms by (simp add: motion_ok_def direction_ok_def)
  have t: "0 \<le> rem1 (progress ?sc1 + (1 / 100) * directionRef w + 1)"
          "rem1 (progress ?sc1 + (1 / 100) * directionRef w + 1) \<le> 1"
    using rem1_unit [OF b d] by simp_all
  show ?thesis
    using assms sc b t
    by (simp add: motion_ok_def progress_ok_def direction_ok_def evaluations_ok_def
        animate_unfold Let_def advance_evals)
qed

lemma run_callback_motion_ok:
  assumes "motion_ok w"
  shows "motion_ok (run_callback getPoint lookAt h w)"
proof -
  have "motion_ok (w\<lparr>raf_pending := removeAll h (raf_pending w)\<rparr>)"
    using assms by (simp add: motion_ok_def progress_ok_def direction_ok_def evaluations_ok_def)
  then show ?thesis
    using assms by (simp add: run_callback_def animate_motion_ok)
qed

lemma step_motion_ok:
  assumes "motion_ok w"
  shows "motion_ok (step getPoint lookAt e w)"
proof (cases e)
  case Frame
  show ?thesis
    unfolding Frame step.simps run_frame_def
    by (intro fold_preserves [where P = motion_ok]) (simp_all add: run_callback_motion_ok assms)
next
  case Unmount
  show ?thesis
    using assms
    by (auto simp: Unmount cleanup_def cancelAnimationFrame_def motion_ok_def progress_ok_def
        direction_ok_def evaluations_ok_def split: option.splits)
qed (use assms in \<open>simp_all add: motion_ok_def progress_ok_def direction_ok_def
      evaluations_ok_def handlePlayingChange_def handleDirectionChange_def
      handleSpeedChange_def Let_def\<close>)

lemma setup_evaluations_unit: "list_all unit_parameter setup_evaluations"
  by (auto simp: setup_evaluations_def list_all_iff)

lemma initial_motion_ok: "motion_ok (initial_world getPoint)"
  using setup_evaluations_unit
  by (simp add: motion_ok_def progress_ok_def direction_ok_def evaluations_ok_def
      initial_world_def)

lemma mount_motion_ok: "motion_ok (mount getPoint lookAt)"
  unfolding mount_def by (rule animate_motion_ok [OF initial_motion_ok])

lemma run_motion_ok: "motion_ok (run getPoint lookAt (mount getPoint lookAt) es)"
  by (rule run_preserves [where P = motion_ok]) (simp_all add: step_motion_ok mount_motion_ok)

text \<open>
  C2. After mounting and any sequence of events (frames, clicks on the controls, slider
  changes to any value, unmounting), the progress lies in \<open>[0, 1]\<close>, and every evaluation
  of the curve recorded in the trace, from the scene construction on, was at a parameter
  in \<open>[0, 1]\<close>.
\<close>

theorem C2_progress_in_unit_interval:
  "progress_ok (run getPoint lookAt (mount getPoint lookAt) es) \<and>
   (\<forall>e \<in> set (trace (run getPoint lookAt (mount getPoint lookAt) es)). unit_parameter e)"
  using run_motion_ok [of getPoint lookAt es]
  by (simp add: motion_ok_def evaluations_ok_def list_all_iff)

theorem C2_progress_in_unit_interval_witness:
  "map_option progress
     (sceneRef (run loop_curve look_target (mount loop_curve look_target)
        [ClickBackward, Frame, Frame])) = Some 1 \<and>
   progress_ok (run loop_curve look_target (mount loop_curve look_target)
        [ClickBackward, Frame, Frame]) \<and>
   GetPoint 1 \<in> set (trace (run loop_curve look_target (mount loop_curve look_target)
        [ClickBackward, Frame, Frame])) \<and>
   unit_parameter (GetPoint 1)"
  using C2_progress_in_unit_interval [of loop_curve look_target "[ClickBackward, Frame, Frame]"]
  by (simp add: mount_def initial_world_def animate_unfold Let_def advance_progress
      advance_evals handleDirectionChange_def run_frame_def run_callback_def)

subsection \<open>The two renditions of the progress update\<close>

text \<open>
  C7, as stated, fails: at progress 1 the first rendition moves to 0.001, the remainder
  of 1.001, while the second, with speed 0.001 and direction 1, snaps to 0.
\<close>

theorem C7_renditions_differ_at_wrap:
  "sceneRef world1 \<noteq> None \<and> map_option progress (sceneRef world1) = Some 1 \<and>
   speedRef world1 = 1 / 1000 \<and> directionRef world1 = 1 \<and> isPlayingRef world1 \<and>
   map_option progress (sceneRef (animate_v1 loop_curve look_target world1)) = Some (1 / 1000) \<and>
   map_option progress (sceneRef (animate loop_curve look_target world1)) = Some 0 \<and>
   map_option progress (sceneRef (animate_v1 loop_curve look_target world1)) \<noteq>
     map_option progress (sceneRef (animate loop_curve look_target world1))"
proof -
  have r: "rem1 (1001 / 1000) = 1 / 1000"
    by (simp add: rem1_def trunc_def floor_eq_iff)
  have v1: "map_option progress (sceneRef (animate_v1 loop_curve look_target world1)) =
              Some (1 / 1000)"
    by (simp add: world1_def world0_def animate_v1_unfold Let_def r)
  have v2: "map_option progress (sceneRef (animate loop_curve look_target world1)) = Some 0"
    by (simp add: world1_def world0_def animate_unfold Let_def advance_progress)
  have w: "sceneRef world1 \<noteq> None \<and> map_option progress (sceneRef world1) = Some 1 \<and>
           speedRef world1 = 1 / 1000 \<and> directionRef world1 = 1 \<and> isPlayingRef world1"
    by (simp add: world1_def world0_def)
  show ?thesis
    unfolding v1 v2 using w by simp
qed

text \<open>The first rendition's \<open>(progress + 0.001) % 1\<close> on a progress in the unit interval.\<close>

lemma rem1_step:
  assumes "0 \<le> p" "p \<le> 1"
  shows "rem1 (p + 1 / 1000) = (if p + 1 / 1000 < 1 then p + 1 / 1000 else p + 1 / 1000 - 1)"
proof (cases "p + 1 / 1000 < 1")
  case True
  then have "\<lfloor>p + 1 / 1000\<rfloor> = 0" using assms by (simp add: floor_eq_iff)
  then show ?thesis using assms True by (simp add: rem1_def trunc_def)
next
  case False
  then have "\<lfloor>p + 1 / 1000\<rfloor> = 1" using assms by (simp add: floor_eq_iff)
  then show ?thesis using assms False by (simp add: rem1_def trunc_def)
qed

text \<open>
  C7, amended. For a progress \<open>p\<close> in \<open>[0, 1]\<close>, with speed 0.001, direction 1 and playback
  active, the two renditions compute the same successor progress exactly when
  \<open>p + 0.001 < 1\<close>, that is, as long as the step does not reach the end of the interval.
\<close>

theorem C7_renditions_agree_before_wrap:
  assumes "sceneRef w = Some sc" and "0 \<le> progress sc" and "progress sc \<le> 1"
    and "speedRef w = 1 / 1000" and "directionRef w = 1" and "isPlayingRef w"
  shows "(map_option progress (sceneRef (animate_v1 getPoint lookAt w)) =
          map_option progress (sceneRef (animate getPoint lookAt w)))
         \<longleftrightarrow> progress sc + 1 / 1000 < 1"
  using assms rem1_step [of "progress sc"]
  by (auto simp: animate_unfold animate_v1_unfold Let_def advance_progress)

theorem C7_renditions_agree_before_wrap_witness:
  "sceneRef world0 \<noteq> None \<and> speedRef world0 = 1 / 1000 \<and> directionRef world0 = 1 \<and>
   isPlayingRef world0 \<and> map_option progress (sceneRef world0) = Some 0 \<and>
   map_option progress (sceneRef (animate_v1 loop_curve look_target world0)) =
     map_option progress (sceneRef (animate loop_curve look_target world0))"
  using C7_renditions_agree_before_wrap [of world0 "the (sceneRef world0)"
      loop_curve look_target]
  by (simp add: world0_def)

subsection \<open>The speed controls\<close>

lemma animate_speed_ok: "speed_ok (animate getPoint lookAt w) = speed_ok w"
proof (cases "sceneRef w")
  case None
  then show ?thesis by (simp add: animate_def)
next
  case (Some sc)
  then show ?thesis by (simp add: animate_unfold Let_def speed_ok_def)
qed

lemma run_callback_speed_ok:
  "speed_ok w \<Longrightarrow> speed_ok (run_callback getPoint lookAt h w)"
  by (simp add: run_callback_def animate_speed_ok) (simp add: speed_ok_def)

lemma step_speed_ok:
  assumes "valid_event e" and "speed_ok w"
  shows "speed_ok (step getPoint lookAt e w)"
proof (cases e)
  case Frame
  show ?thesis
    unfolding Frame step.simps run_frame_def
    by (intro fold_preserves [where P = speed_ok]) (simp_all add: run_callback_speed_ok assms)
next
  case Unmount
  show ?thesis
    using assms
    by (auto simp: Unmount cleanup_def cancelAnimationFrame_def speed_ok_def
        split: option.splits)
qed (use assms in \<open>auto simp: speed_ok_def handlePlayingChange_def
      handleDirectionChange_def handleSpeedChange_def Let_def max_def min_def\<close>)

lemma mount_speed_ok: "speed_ok (mount getPoint lookAt)"
  by (simp add: mount_def animate_speed_ok) (simp add: speed_ok_def initial_world_def)

text \<open>
  C10. After mounting, with the initial speed 0.001, and any sequence of events whose
  slider values lie in the range of the input (in particular any sequence of presses of
  Slower and Faster), the speed lies in \<open>[0.0001, 0.005]\<close>, ref and React state agree,
  Slower sets the speed to \<open>max(0.0001, speed - 0.0001)\<close> and Faster to
  \<open>min(0.005, speed + 0.0001)\<close>.
\<close>

theorem C10_speed_in_range:
  assumes "\<forall>e \<in> set es. valid_event e"
  shows "let w = run getPoint lookAt (mount getPoint lookAt) es
         in 1 / 10000 \<le> speedRef w \<and> speedRef w \<le> 5 / 1000 \<and>
            controlState_speed w = speedRef w \<and>
            speedRef (step getPoint lookAt ClickSlower w) =
              max (1 / 10000) (speedRef w - 1 / 10000) \<and>
            speedRef (step getPoint lookAt ClickFaster w) =
              min (5 / 1000) (speedRef w + 1 / 10000)"
proof -
  have "speed_ok (run getPoint lookAt (mount getPoint lookAt) es)"
    using assms
    by (intro run_preserves [where P = speed_ok]) (simp_all add: step_speed_ok mount_speed_ok)
  then show ?thesis
    by (simp add: speed_ok_def Let_def handleSpeedChange_def)
qed

theorem C10_speed_in_range_witness:
  "valid_event ClickSlower \<and> valid_event ClickFaster \<and>
   speedRef (run loop_curve look_target (mount loop_curve look_target)
     [ClickSlower, ClickFaster, ClickFaster]) = 11 / 10000"
  using C10_speed_in_range [of "[ClickSlower, ClickFaster, ClickFaster]" loop_curve look_target]
  by (simp add: mount_def initial_world_def animate_unfold Let_def handleSpeedChange_def)

subsection \<open>The pending animation frame\<close>

lemma animate_raf_ok:
  assumes "sceneRef w = Some sc" and "raf_pending w = []"
  shows "raf_ok (animate getPoint lookAt w)"
  using assms by (simp add: animate_unfold Let_def raf_ok_def)

lemma run_frame_raf_ok:
  assumes "raf_ok w"
  shows "raf_ok (run_frame getPoint lookAt w)"
proof -
  from assms obtain sc where sc: "sceneRef w = Some sc"
    by (auto simp: raf_ok_def split: option.splits)
  show ?thesis
  proof (cases "raf_pending w = []")
    case True
    then show ?thesis using assms by (simp add: run_frame_def)
  next
    case False
    then have p: "raf_pending w = [raf_handle w]"
      using assms sc by (simp add: raf_ok_def)
    have "raf_ok (animate getPoint lookAt (w\<lparr>raf_pending := []\<rparr>))"
      using sc by (intro animate_raf_ok) simp_all
    then show ?thesis
      using p by (simp add: run_frame_def run_callback_def)
  qed
qed

lemma cleanup_raf:
  assumes "raf_ok w"
  shows "raf_pending (cleanup w) = [] \<and> sceneRef (cleanup w) = sceneRef w"
  using assms
  by (auto simp: raf_ok_def cleanup_def cancelAnimationFrame_def split: option.splits)

lemma step_raf_ok:
  assumes "raf_ok w"
  shows "raf_ok (step getPoint lookAt e w)"
proof (cases e)
  case Frame
  then show ?thesis using assms by (simp add: run_frame_raf_ok)
next
  case Unmount
  then show ?thesis
    using assms cleanup_raf [OF assms]
    by (auto simp: raf_ok_def split: option.splits)
qed (use assms in \<open>auto simp: raf_ok_def handlePlayingChange_def
      handleDirectionChange_def handleSpeedChange_def Let_def split: option.splits\<close>)

lemma mount_raf_ok: "raf_ok (mount getPoint lookAt)"
  unfolding mount_def by (rule animate_raf_ok) (simp_all add: initial_world_def)

lemma run_raf_ok: "raf_ok (run getPoint lookAt (mount getPoint lookAt) es)"
  by (rule run_preserves [where P = raf_ok]) (simp_all add: step_raf_ok mount_raf_ok)

text \<open>
  C9. An invocation of \<open>animate\<close> with \<open>sceneRef.current\<close> set queues exactly one callback,
  under a new handle, and stores that handle in \<open>animationFrameId\<close>. After mounting and any
  sequence of events, \<open>sceneRef.current\<close> is set, at most one callback is pending, a frame
  leaves as many callbacks pending as it found, a pending callback is the one whose handle
  is stored, and the cleanup cancels it: nothing is pending after the cleanup.
\<close>

theorem C9_single_pending_frame:
  "(sceneRef v \<noteq> None \<longrightarrow>
      raf_pending (animate getPoint lookAt v) = raf_pending v @ [raf_handle v + 1] \<and>
      map_option animationFrameId (sceneRef (animate getPoint lookAt v)) =
        Some (Some (raf_handle v + 1))) \<and>
   (let w = run getPoint lookAt (mount getPoint lookAt) es
    in sceneRef w \<noteq> None \<and>
       length (raf_pending w) \<le> 1 \<and>
       length (raf_pending (step getPoint lookAt Frame w)) = length (raf_pending w) \<and>
       (\<forall>h \<in> set (raf_pending w).
          map_option animationFrameId (sceneRef w) = Some (Some h) \<and>
          trace (cleanup w) = trace w @ [CancelFrame h]) \<and>
       raf_pending (cleanup w) = [])"
proof -
  define w where "w = run getPoint lookAt (mount getPoint lookAt) es"
  have ok: "raf_ok w"
    unfolding w_def by (rule run_raf_ok)
  then obtain sc where sc: "sceneRef w = Some sc"
    by (auto simp: raf_ok_def split: option.splits)
  have one: "length (raf_pending w) \<le> 1"
    using ok sc by (auto simp: raf_ok_def)
  have frame: "length (raf_pending (step getPoint lookAt Frame w)) = length (raf_pending w)"
    using ok sc
    by (auto simp: raf_ok_def run_frame_def run_callback_def animate_unfold Let_def)
  have cancel: "\<forall>h \<in> set (raf_pending w).
          map_option animationFrameId (sceneRef w) = Some (Some h) \<and>
          trace (cleanup w) = trace w @ [CancelFrame h]"
    using ok sc by (auto simp: raf_ok_def cleanup_def cancelAnimationFrame_def)
  have first: "sceneRef v \<noteq> None \<longrightarrow>
      raf_pending (animate getPoint lookAt v) = raf_pending v @ [raf_handle v + 1] \<and>
      map_option animationFrameId (sceneRef (animate getPoint lookAt v)) =
        Some (Some (raf_handle v + 1))"
    by (auto simp: animate_unfold Let_def)
  show ?thesis
    using first sc one frame cancel cleanup_raf [OF ok]
    by (simp add: Let_def w_def [symmetric])
qed

theorem C9_single_pending_frame_witness:
  "sceneRef world0 \<noteq> None \<and>
   raf_pending (animate loop_curve look_target world0) = [1] \<and>
   raf_pending (run loop_curve look_target (mount loop_curve look_target) [Frame, Frame]) = [3] \<and>
   3 \<in> set (raf_pending
     (run loop_curve look_target (mount loop_curve look_target) [Frame, Frame])) \<and>
   raf_pending (cleanup
     (run loop_curve look_target (mount loop_curve look_target) [Frame, Frame])) = []"
  using C9_single_pending_frame [of world0 loop_curve look_target "[Frame, Frame]"]
  by (simp add: world0_def mount_def initial_world_def animate_unfold Let_def
      run_frame_def run_callback_def)

subsection \<open>Determinism of a frame\<close>

lemma animate_on_curve:
  assumes "on_curve getPoint w"
  shows "on_curve getPoint (animate getPoint lookAt w)"
proof -
  from assms obtain sc where sc: "sceneRef w = Some sc"
    by (auto simp: on_curve_def split: option.splits)
  show ?thesis
    using assms sc by (simp add: on_curve_def animate_unfold Let_def advance_position)
qed

lemma run_callback_on_curve:
  assumes "on_curve getPoint w"
  shows "on_curve getPoint (run_callback getPoint lookAt h w)"
proof -
  have "on_curve getPoint (w\<lparr>raf_pending := removeAll h (raf_pending w)\<rparr>)"
    using assms by (simp add: on_curve_def)
  then show ?thesis
    using assms by (simp add: run_callback_def animate_on_curve)
qed

lemma step_on_curve:
  assumes "on_curve getPoint w"
  shows "on_curve getPoint (step getPoint lookAt e w)"
proof (cases e)
  case Frame
  show ?thesis
    unfolding Frame step.simps run_frame_def
    by (intro fold_preserves [where P = "on_curve getPoint"])
      (simp_all add: run_callback_on_curve assms)
next
  case Unmount
  show ?thesis
    using assms
    by (auto simp: Unmount cleanup_def cancelAnimationFrame_def on_curve_def
        split: option.splits)
qed (use assms in \<open>simp_all add: on_curve_def handlePlayingChange_def
      handleDirectionChange_def handleSpeedChange_def Let_def\<close>)

lemma mount_on_curve: "on_curve getPoint (mount getPoint lookAt)"
  unfolding mount_def
  by (rule animate_on_curve) (simp add: on_curve_def initial_world_def)

lemma run_on_curve: "on_curve getPoint (run getPoint lookAt (mount getPoint lookAt) es)"
  by (rule run_preserves [where P = "on_curve getPoint"])
    (simp_all add: step_on_curve mount_on_curve)

text \<open>A frame of the browser with a callback pending ends in the scene that \<open>animate\<close> computes.\<close>

lemma frame_scene:
  assumes "raf_ok w" and "raf_pending w \<noteq> []"
  shows "sceneRef (step getPoint lookAt Frame w) = sceneRef (animate getPoint lookAt w)"
proof -
  from assms obtain sc where sc: "sceneRef w = Some sc"
    by (auto simp: raf_ok_def split: option.splits)
  have p: "raf_pending w = [raf_handle w]"
    using assms sc by (simp add: raf_ok_def)
  have sc': "sceneRef (w\<lparr>raf_pending := []\<rparr>) = Some sc"
    using sc by simp
  show ?thesis
    using p by (simp add: run_frame_def run_callback_def animate_unfold [OF sc]
        animate_unfold [OF sc'] Let_def)
qed

text \<open>
  For any curve and any \<open>lookAt\<close>, the two histories below end in states with equal
  progress, speed, direction and playing flag, and a further frame leaves the ball looking
  at the curve point ahead in the one and at the curve point behind in the other.
\<close>

lemma paused_orientation_of_history:
  fixes getPoint lookAt
  defines "wA \<equiv> run getPoint lookAt (mount getPoint lookAt) [ClickStartStop]"
    and "wB \<equiv> run getPoint lookAt (mount getPoint lookAt)
                [Frame, ClickBackward, Frame, ClickStartStop, ClickForward]"
  shows "map_option progress (sceneRef wA) = Some (1 / 1000) \<and>
         map_option progress (sceneRef wB) = Some (1 / 1000) \<and>
         speedRef wA = 1 / 1000 \<and> speedRef wB = 1 / 1000 \<and>
         directionRef wA = 1 \<and> directionRef wB = 1 \<and>
         \<not> isPlayingRef wA \<and> \<not> isPlayingRef wB \<and>
         map_option ball_quaternion (sceneRef (step getPoint lookAt Frame wA)) =
           Some (lookAt (getPoint (1 / 1000)) (getPoint (11 / 1000))) \<and>
         map_option ball_quaternion (sceneRef (step getPoint lookAt Frame wB)) =
           Some (lookAt (getPoint (1 / 1000)) (getPoint (991 / 1000)))"
proof -
  have r: "rem1 (1011 / 1000) = 11 / 1000" "rem1 (1012 / 1000) = 12 / 1000"
    "rem1 (991 / 1000) = 991 / 1000"
    by (simp_all add: rem1_def trunc_def floor_eq_iff)
  show ?thesis
    unfolding wA_def wB_def
    by (simp add: mount_def initial_world_def animate_unfold Let_def advance_def
      handleDirectionChange_def handlePlayingChange_def run_frame_def run_callback_def r)
qed

text \<open>
  C8, amended. Take two states reachable from mounting that agree on progress, speed,
  direction and the playing flag, and run the animation callback in each. The resulting
  progress and ball position are identical, playing or paused. The resulting orientation
  is identical when playing; when paused it is the orientation the ball had before the
  frame. A frame of the browser with the callback pending ends in these scenes.
\<close>

theorem C8_frame_deterministic:
  assumes "w1 = run getPoint lookAt (mount getPoint lookAt) es1"
    and "w2 = run getPoint lookAt (mount getPoint lookAt) es2"
    and "map_option progress (sceneRef w1) = map_option progress (sceneRef w2)"
    and "speedRef w1 = speedRef w2"
    and "directionRef w1 = directionRef w2"
    and "isPlayingRef w1 = isPlayingRef w2"
  shows "\<exists>s1 s2 s1' s2'.
           sceneRef w1 = Some s1 \<and> sceneRef w2 = Some s2 \<and>
           sceneRef (animate getPoint lookAt w1) = Some s1' \<and>
           sceneRef (animate getPoint lookAt w2) = Some s2' \<and>
           progress s1' = progress s2' \<and>
           ball_position s1' = ball_position s2' \<and>
           (isPlayingRef w1 \<longrightarrow> ball_quaternion s1' = ball_quaternion s2') \<and>
           (\<not> isPlayingRef w1 \<longrightarrow>
              ball_quaternion s1' = ball_quaternion s1 \<and>
              ball_quaternion s2' = ball_quaternion s2) \<and>
           (raf_pending w1 \<noteq> [] \<longrightarrow> sceneRef (step getPoint lookAt Frame w1) = Some s1') \<and>
           (raf_pending w2 \<noteq> [] \<longrightarrow> sceneRef (step getPoint lookAt Frame w2) = Some s2')"
proof -
  have c1: "on_curve getPoint w1" and c2: "on_curve getPoint w2"
    unfolding assms(1,2) by (rule run_on_curve)+
  have r1: "raf_ok w1" and r2: "raf_ok w2"
    unfolding assms(1,2) by (rule run_raf_ok)+
  from c1 obtain s1 where s1: "sceneRef w1 = Some s1" "ball_position s1 = getPoint (progress s1)"
    by (auto simp: on_curve_def split: option.splits)
  from c2 obtain s2 where s2: "sceneRef w2 = Some s2" "ball_position s2 = getPoint (progress s2)"
    by (auto simp: on_curve_def split: option.splits)
  have p: "progress s1 = progress s2"
    using assms(3) s1(1) s2(1) by simp
  define s1' where "s1' = the (sceneRef (animate getPoint lookAt w1))"
  define s2' where "s2' = the (sceneRef (animate getPoint lookAt w2))"
  have a1: "sceneRef (animate getPoint lookAt w1) = Some s1'"
    using s1(1) by (simp add: s1'_def animate_unfold Let_def)
  have a2: "sceneRef (animate getPoint lookAt w2) = Some s2'"
    using s2(1) by (simp add: s2'_def animate_unfold Let_def)
  have prog: "progress s1' = progress s2'"
    using s1(1) s2(1) p assms(4-6)
    by (simp add: s1'_def s2'_def animate_unfold Let_def advance_progress)
  have pos: "ball_position s1' = ball_position s2'"
    using s1 s2 p assms(4-6)
    by (simp add: s1'_def s2'_def animate_unfold Let_def advance_position advance_progress)
  have play: "isPlayingRef w1 \<longrightarrow> ball_quaternion s1' = ball_quaternion s2'"
    using s1(1) s2(1) p assms(4-6)
    by (simp add: s1'_def s2'_def animate_unfold Let_def advance_def)
  have pause: "\<not> isPlayingRef w1 \<longrightarrow>
      ball_quaternion s1' = ball_quaternion s1 \<and> ball_quaternion s2' = ball_quaternion s2"
    using s1(1) s2(1) assms(6)
    by (simp add: s1'_def s2'_def animate_unfold Let_def)
  have f1: "raf_pending w1 \<noteq> [] \<longrightarrow> sceneRef (step getPoint lookAt Frame w1) = Some s1'"
    using frame_scene [OF r1] a1 by simp
  have f2: "raf_pending w2 \<noteq> [] \<longrightarrow> sceneRef (step getPoint lookAt Frame w2) = Some s2'"
    using frame_scene [OF r2] a2 by simp
  show ?thesis
    using s1(1) s2(1) a1 a2 prog pos play pause f1 f2 by blast
qed

theorem C8_frame_deterministic_witness:
  "map_option progress (sceneRef paused_forward) =
     map_option progress (sceneRef paused_turned) \<and>
   speedRef paused_forward = speedRef paused_turned \<and>
   directionRef paused_forward = directionRef paused_turned \<and>
   isPlayingRef paused_forward = isPlayingRef paused_turned \<and>
   map_option progress (sceneRef (animate loop_curve look_target paused_forward)) =
     map_option progress (sceneRef (animate loop_curve look_target paused_turned)) \<and>
   map_option ball_position (sceneRef (animate loop_curve look_target paused_forward)) =
     map_option ball_position (sceneRef (animate loop_curve look_target paused_turned))"
proof -
  note h = paused_orientation_of_history [of loop_curve look_target,
      folded paused_forward_def paused_turned_def]
  have agree:
    "map_option progress (sceneRef paused_forward) =
       map_option progress (sceneRef paused_turned)"
    "speedRef paused_forward = speedRef paused_turned"
    "directionRef paused_forward = directionRef paused_turned"
    "isPlayingRef paused_forward = isPlayingRef paused_turned"
    using h by auto
  show ?thesis
    using C8_frame_deterministic [OF paused_forward_def paused_turned_def agree] agree
    by auto
qed

text \<open>
  C8, as stated, fails on paused frames: the two histories end in states with the same
  progress, speed, direction and playing flag, and the frame that follows leaves the ball
  with different orientations.
\<close>

theorem C8_paused_orientation_differs:
  "map_option progress (sceneRef paused_forward) = Some (1 / 1000) \<and>
   map_option progress (sceneRef paused_turned) = Some (1 / 1000) \<and>
   speedRef paused_forward = speedRef paused_turned \<and>
   directionRef paused_forward = directionRef paused_turned \<and>
   isPlayingRef paused_forward = isPlayingRef paused_turned \<and>
   map_option ball_quaternion (sceneRef (step loop_curve look_target Frame paused_forward)) =
     Some (2 / 5, 0, 2 / 5, 0) \<and>
   map_option ball_quaternion (sceneRef (step loop_curve look_target Frame paused_turned)) =
     Some (8 / 25, 0, - 2 / 5, 0) \<and>
   map_option ball_quaternion (sceneRef (step loop_curve look_target Frame paused_forward)) \<noteq>
     map_option ball_quaternion (sceneRef (step loop_curve look_target Frame paused_turned))"
proof -
  note h = paused_orientation_of_history [of loop_curve look_target,
      folded paused_forward_def paused_turned_def]
  have qf: "map_option ball_quaternion
              (sceneRef (step loop_curve look_target Frame paused_forward)) =
            Some (2 / 5, 0, 2 / 5, 0)"
    using h by (simp add: loop_curve_def look_target_def)
  have qt: "map_option ball_quaternion
              (sceneRef (step loop_curve look_target Frame paused_turned)) =
            Some (8 / 25, 0, - 2 / 5, 0)"
    using h by (simp add: loop_curve_def look_target_def)
  show ?thesis
    unfolding qf qt using h by simp
qed

end
